theory Spec2Isabelle
  imports Complex_Main
begin

section \<open>Python values\<close>

text \<open>
  The payloads that flow through \<^verbatim>\<open>utils.py\<close> and \<^verbatim>\<open>app.py\<close> are untyped Python
  values: \<^verbatim>\<open>None\<close>, booleans, unbounded integers, floats, strings, lists and
  dictionaries, nested to any depth. A dictionary keeps its items in insertion order,
  so it is an association list of key and value. A float is the real number it denotes;
  NaN and the infinities have no representative.
\<close>

datatype pyval =
    PNone
  | PBool bool
  | PInt int
  | PFloat real
  | PStr string
  | PList "pyval list"
  | PDict "(pyval \<times> pyval) list"

type_synonym pydict = "(pyval \<times> pyval) list"

subsection \<open>Exceptions\<close>

text \<open>
  The exception classes this program can meet. The first five are
  \<^verbatim>\<open>requests.exceptions.RequestException\<close> and subclasses of it; the others are
  built-in classes outside that hierarchy (\<^verbatim>\<open>RecursionError\<close> is what the JSON
  decoder raises on a body nested deeper than the interpreter's stack allows). \<open>exc_str\<close> is what \<^verbatim>\<open>str(e)\<close> returns.
\<close>

datatype exc_class =
    RequestException
  | ConnectionError
  | HTTPError
  | Timeout
  | RequestsJSONDecodeError
  | ValueError
  | TypeError
  | RecursionError
  | OtherException

record py_exception =
  exc_type :: exc_class
  exc_str :: string

text \<open>\<^verbatim>\<open>isinstance(e, requests.exceptions.RequestException)\<close>, on the class of \<open>e\<close>.\<close>

fun isinstance_RequestException :: "exc_class \<Rightarrow> bool" where
  "isinstance_RequestException RequestException = True"
| "isinstance_RequestException ConnectionError = True"
| "isinstance_RequestException HTTPError = True"
| "isinstance_RequestException Timeout = True"
| "isinstance_RequestException RequestsJSONDecodeError = True"
| "isinstance_RequestException ValueError = False"
| "isinstance_RequestException TypeError = False"
| "isinstance_RequestException RecursionError = False"
| "isinstance_RequestException OtherException = False"

text \<open>
  A computation that may raise returns \<open>Inl e\<close> for the exception \<open>e\<close> and \<open>Inr v\<close>
  for the value \<open>v\<close>; \<open>and_then\<close> runs the next statement unless the first one raised.
\<close>

type_synonym 'a raises = "py_exception + 'a"

definition and_then :: "'a raises \<Rightarrow> ('a \<Rightarrow> 'b raises) \<Rightarrow> 'b raises" where
  "and_then m f = (case m of Inl e \<Rightarrow> Inl e | Inr v \<Rightarrow> f v)"

subsection \<open>Dictionary displays\<close>

text \<open>
  A dictionary key must be hashable: lists and dictionaries are not. Two keys are the
  same key when Python's \<^verbatim>\<open>==\<close> holds between them, which compares numbers by
  value across \<^verbatim>\<open>bool\<close>, \<^verbatim>\<open>int\<close> and \<^verbatim>\<open>float\<close>.
\<close>

fun hashable :: "pyval \<Rightarrow> bool" where
  "hashable (PList _) = False"
| "hashable (PDict _) = False"
| "hashable _ = True"

fun type_name :: "pyval \<Rightarrow> string" where
  "type_name PNone = ''NoneType''"
| "type_name (PBool _) = ''bool''"
| "type_name (PInt _) = ''int''"
| "type_name (PFloat _) = ''float''"
| "type_name (PStr _) = ''str''"
| "type_name (PList _) = ''list''"
| "type_name (PDict _) = ''dict''"

fun num_of :: "pyval \<Rightarrow> real option" where
  "num_of (PBool b) = Some (if b then 1 else 0)"
| "num_of (PInt i) = Some (real_of_int i)"
| "num_of (PFloat r) = Some r"
| "num_of _ = None"

definition key_eq :: "pyval \<Rightarrow> pyval \<Rightarrow> bool" where
  "key_eq a b =
     (case (num_of a, num_of b) of
        (Some x, Some y) \<Rightarrow> x = y
      | (None, None) \<Rightarrow> a = b
      | _ \<Rightarrow> False)"

text \<open>
  \<^verbatim>\<open>d[k] = v\<close>: an existing key keeps its place and its key object and takes the new
  value; a new key goes to the end.
\<close>

fun dict_setitem :: "pydict \<Rightarrow> pyval \<Rightarrow> pyval \<Rightarrow> pydict" where
  "dict_setitem [] k v = [(k, v)]"
| "dict_setitem ((k', v') # d) k v =
     (if key_eq k' k then (k', v) # d else (k', v') # dict_setitem d k v)"

text \<open>
  The display \<^verbatim>\<open>{k1: v1, ..., kn: vn}\<close> inserts its items from left to right into an
  empty dictionary and raises \<^verbatim>\<open>TypeError\<close> at the first unhashable key.
\<close>

fun dict_build :: "pydict \<Rightarrow> (pyval \<times> pyval) list \<Rightarrow> pyval raises" where
  "dict_build acc [] = Inr (PDict acc)"
| "dict_build acc ((k, v) # kvs) =
     (if hashable k then dict_build (dict_setitem acc k v) kvs
      else Inl \<lparr>exc_type = TypeError,
                exc_str = ''unhashable type: '' @ [CHR 0x27] @ type_name k @ [CHR 0x27]\<rparr>)"

definition dict_display :: "(pyval \<times> pyval) list \<Rightarrow> pyval raises" where
  "dict_display kvs = dict_build [] kvs"

text \<open>\<^verbatim>\<open>d.keys()\<close> and \<^verbatim>\<open>d.get(k)\<close>; \<open>None\<close> where the value is no dictionary.\<close>

fun dict_keys :: "pyval \<Rightarrow> pyval list option" where
  "dict_keys (PDict d) = Some (map fst d)"
| "dict_keys _ = None"

fun lookup :: "pydict \<Rightarrow> pyval \<Rightarrow> pyval option" where
  "lookup [] k = None"
| "lookup ((k', v') # d) k = (if key_eq k' k then Some v' else lookup d k)"

fun dict_get :: "pyval \<Rightarrow> pyval \<Rightarrow> pyval option" where
  "dict_get (PDict d) k = lookup d k"
| "dict_get _ k = None"

section \<open>The response formatter (utils.py)\<close>

text \<open>
  \<^verbatim>\<open>
  def format_response(data):
      return {
          'status': 'success',
          'data': data,
          'timestamp': '2024-01-01T00:00:00Z'
      }
  \<close>
\<close>

definition format_response :: "pyval \<Rightarrow> pyval raises" where
  "format_response data =
     dict_display
       [(PStr ''status'', PStr ''success''),
        (PStr ''data'', data),
        (PStr ''timestamp'', PStr ''2024-01-01T00:00:00Z'')]"

text \<open>
  \<^verbatim>\<open>
  class DataProcessor:
      def __init__(self, config):
          self.config = config
      def process(self, data):
          return format_response(data)
  \<close>
  The configuration is any object at all, so its type is a parameter.
\<close>

record 'c DataProcessor =
  config :: 'c

definition DataProcessor_init :: "'c \<Rightarrow> 'c DataProcessor" where
  "DataProcessor_init cfg = \<lparr>config = cfg\<rparr>"

definition process :: "'c DataProcessor \<Rightarrow> pyval \<Rightarrow> pyval raises" where
  "process self data = format_response data"

section \<open>The web application (app.py)\<close>

subsection \<open>The framework: requests in, responses out\<close>

text \<open>
  An incoming GET request, as Flask's ambient request context holds it. The view
  functions of \<^verbatim>\<open>app.py\<close> take no parameter and read nothing of it; here they
  receive it as an argument.
\<close>

record request =
  path :: string
  args :: "(string \<times> string) list"
  headers :: "(string \<times> string) list"

text \<open>
  A response carries its status code and its JSON body; the body is kept as the value
  that is serialised, not as the serialised text. \<^verbatim>\<open>jsonify(v)\<close> makes the response
  with status 200 and body \<open>v\<close>.
\<close>

record flask_response =
  status :: nat
  body :: pyval

definition jsonify :: "pyval \<Rightarrow> flask_response" where
  "jsonify v = \<lparr>status = 200, body = v\<rparr>"

text \<open>
  A view returns either a response (\<^verbatim>\<open>return resp\<close>) or a pair of a response and a
  status (\<^verbatim>\<open>return resp, 500\<close>); Flask's \<^verbatim>\<open>make_response\<close> sets the status of the
  pair's response.
\<close>

datatype view_rv = Rv flask_response | RvStatus flask_response nat

fun make_response :: "view_rv \<Rightarrow> flask_response" where
  "make_response (Rv r) = r"
| "make_response (RvStatus r s) = r\<lparr>status := s\<rparr>"

subsection \<open>The HTTP client: the upstream service\<close>

text \<open>
  What \<^verbatim>\<open>requests.get\<close> returns: the status code, the text of the \<^verbatim>\<open>HTTPError\<close> that
  \<^verbatim>\<open>raise_for_status\<close> builds from status, reason and URL, and what \<^verbatim>\<open>.json()\<close>
  does, which is to return the parsed body or to raise. These are facts of the upstream
  service and of the client library, so they are given, not computed.
\<close>

record upstream_response =
  status_code :: nat
  http_error_msg :: string
  json :: "pyval raises"

text \<open>
  \<^verbatim>\<open>Response.raise_for_status()\<close> of the \<^verbatim>\<open>requests\<close> library raises \<^verbatim>\<open>HTTPError\<close> for
  a status from 400 to 599 and returns \<^verbatim>\<open>None\<close> for every other status.
\<close>

definition raise_for_status :: "upstream_response \<Rightarrow> unit raises" where
  "raise_for_status r =
     (if 400 \<le> status_code r \<and> status_code r < 600
      then Inl \<lparr>exc_type = HTTPError, exc_str = http_error_msg r\<rparr>
      else Inr ())"

text \<open>
  The network: \<open>reply net k\<close> is the outcome of the outbound call number \<open>k\<close> (an
  exception raised by \<^verbatim>\<open>requests.get\<close>, or the response it returns), and \<open>sent net\<close>
  is the log of the URLs requested so far. Each \<^verbatim>\<open>requests.get(url)\<close> takes the next
  outcome and appends \<open>url\<close> to the log. A call that never returns (no timeout is
  configured) has no outcome here.
\<close>

record network =
  reply :: "nat \<Rightarrow> upstream_response raises"
  sent :: "string list"

definition requests_get :: "string \<Rightarrow> network \<Rightarrow> upstream_response raises \<times> network" where
  "requests_get url net = (reply net (length (sent net)), net\<lparr>sent := sent net @ [url]\<rparr>)"

subsection \<open>The two views\<close>

text \<open>
  \<^verbatim>\<open>
  @app.route('/')
  def hello():
    return jsonify({'message': 'Hello from Python!'})
  \<close>
\<close>

definition hello :: "request \<Rightarrow> view_rv raises" where
  "hello req =
     and_then (dict_display [(PStr ''message'', PStr ''Hello from Python!'')])
       (\<lambda>d. Inr (Rv (jsonify d)))"

text \<open>
  \<^verbatim>\<open>
  @app.route('/data')
  def get_data():
      try:
          response = requests.get('https://api.example.com/data')
          response.raise_for_status()
          return jsonify(response.json())
      except requests.exceptions.RequestException as e:
          return jsonify({'error': str(e)}), 500
  \<close>
  The \<^verbatim>\<open>try\<close> block is the inner expression; the \<^verbatim>\<open>except\<close> clause takes the
  exceptions of class \<^verbatim>\<open>RequestException\<close> and lets every other one through.
\<close>

definition get_data :: "request \<Rightarrow> network \<Rightarrow> view_rv raises \<times> network" where
  "get_data req net =
     (case requests_get ''https://api.example.com/data'' net of
        (got, net') \<Rightarrow>
          (case and_then got (\<lambda>response.
                  and_then (raise_for_status response) (\<lambda>_.
                  and_then (json response) (\<lambda>v.
                  Inr (Rv (jsonify v))))) of
             Inr rv \<Rightarrow> (Inr rv, net')
           | Inl e \<Rightarrow>
               if isinstance_RequestException (exc_type e)
               then (and_then (dict_display [(PStr ''error'', PStr (exc_str e))])
                       (\<lambda>d. Inr (RvStatus (jsonify d) 500)), net')
               else (Inl e, net')))"

subsection \<open>Routing\<close>

text \<open>
  The two \<^verbatim>\<open>@app.route\<close> decorators register the rules \<^verbatim>\<open>/\<close> and \<^verbatim>\<open>/data\<close>. A GET
  request is matched on its path alone; the view's return value becomes the response,
  an exception the view lets through is unhandled, and a path with no rule is not found.
\<close>

datatype endpoint = Hello | GetData

definition url_map :: "string \<Rightarrow> endpoint option" where
  "url_map p = (if p = ''/'' then Some Hello else if p = ''/data'' then Some GetData else None)"

datatype served = Response flask_response | Unhandled py_exception | NotFound

fun finalize :: "view_rv raises \<Rightarrow> served" where
  "finalize (Inr rv) = Response (make_response rv)"
| "finalize (Inl e) = Unhandled e"

definition dispatch_request :: "request \<Rightarrow> network \<Rightarrow> served \<times> network" where
  "dispatch_request req net =
     (case url_map (path req) of
        None \<Rightarrow> (NotFound, net)
      | Some Hello \<Rightarrow> (finalize (hello req), net)
      | Some GetData \<Rightarrow> (case get_data req net of (rv, net') \<Rightarrow> (finalize rv, net')))"

text \<open>
  A network for tests, as a mock of \<^verbatim>\<open>requests.get\<close> gives it: every outbound call
  has the outcome \<open>r\<close>, and nothing has been sent yet.
\<close>

definition mock_network :: "upstream_response raises \<Rightarrow> network" where
  "mock_network r = \<lparr>reply = (\<lambda>_. r), sent = []\<rparr>"

section \<open>Helper facts\<close>

lemma and_then_Inl: "and_then (Inl e) f = Inl e"
  by (simp add: and_then_def)

lemma and_then_Inr: "and_then (Inr v) f = f v"
  by (simp add: and_then_def)

lemma format_response_Inr:
  "format_response data =
     Inr (PDict [(PStr ''status'', PStr ''success''),
                 (PStr ''data'', data),
                 (PStr ''timestamp'', PStr ''2024-01-01T00:00:00Z'')])"
  by (simp add: format_response_def dict_display_def key_eq_def)

lemma hello_Inr:
  "hello req =
     Inr (Rv \<lparr>status = 200, body = PDict [(PStr ''message'', PStr ''Hello from Python!'')]\<rparr>)"
  by (simp add: hello_def dict_display_def and_then_Inr jsonify_def)

lemma error_body:
  "dict_display [(PStr ''error'', PStr s)] = Inr (PDict [(PStr ''error'', PStr s)])"
  by (simp add: dict_display_def)

text \<open>The view when \<^verbatim>\<open>requests.get\<close> itself raises.\<close>

lemma get_data_raised:
  assumes "reply net (length (sent net)) = Inl e"
  shows "get_data req net =
     (if isinstance_RequestException (exc_type e)
      then Inr (RvStatus \<lparr>status = 200, body = PDict [(PStr ''error'', PStr (exc_str e))]\<rparr> 500)
      else Inl e,
      net\<lparr>sent := sent net @ [''https://api.example.com/data'']\<rparr>)"
  using assms
  by (simp add: get_data_def requests_get_def and_then_Inl and_then_Inr error_body jsonify_def)

text \<open>The view when \<^verbatim>\<open>requests.get\<close> returns a response.\<close>

lemma get_data_returned:
  assumes "reply net (length (sent net)) = Inr r"
  shows "get_data req net =
     (case and_then (raise_for_status r) (\<lambda>_. json r) of
        Inr v \<Rightarrow> Inr (Rv \<lparr>status = 200, body = v\<rparr>)
      | Inl e \<Rightarrow>
          if isinstance_RequestException (exc_type e)
          then Inr (RvStatus \<lparr>status = 200, body = PDict [(PStr ''error'', PStr (exc_str e))]\<rparr> 500)
          else Inl e,
      net\<lparr>sent := sent net @ [''https://api.example.com/data'']\<rparr>)"
  using assms
  by (cases "raise_for_status r"; cases "json r")
    (simp_all add: get_data_def requests_get_def and_then_Inl and_then_Inr error_body jsonify_def)

text \<open>An exception outside the \<^verbatim>\<open>RequestException\<close> hierarchy passes the \<^verbatim>\<open>except\<close> clause.\<close>

lemma get_data_not_caught:
  assumes "reply net (length (sent net)) = Inr r"
    and "raise_for_status r = Inr ()"
    and "json r = Inl e"
    and "\<not> isinstance_RequestException (exc_type e)"
  shows "fst (get_data req net) = Inl e"
  using assms by (simp add: get_data_returned and_then_Inr)

lemma raise_for_status_ok:
  "status_code r < 400 \<Longrightarrow> raise_for_status r = Inr ()"
  by (simp add: raise_for_status_def)

lemma raise_for_status_class:
  "raise_for_status r = Inl e \<Longrightarrow> exc_type e = HTTPError \<and> exc_str e = http_error_msg r"
  by (auto simp: raise_for_status_def split: if_splits)

lemma dispatch_data:
  "path req = ''/data'' \<Longrightarrow>
     dispatch_request req net = (finalize (fst (get_data req net)), snd (get_data req net))"
  by (simp add: dispatch_request_def url_map_def split: prod.splits)

lemma dispatch_hello:
  "path req = ''/'' \<Longrightarrow> dispatch_request req net = (finalize (hello req), net)"
  by (simp add: dispatch_request_def url_map_def)

section \<open>Properties of the response formatter\<close>

text \<open>
  Claim C1. For every value \<open>X\<close>, \<open>format_response X\<close> returns exactly the dictionary
  with the items \<^verbatim>\<open>'status': 'success'\<close>, \<^verbatim>\<open>'data': X\<close> and
  \<^verbatim>\<open>'timestamp': '2024-01-01T00:00:00Z'\<close>, in this order, and equal inputs give equal
  envelopes: the timestamp is that literal for every call.
\<close>

theorem format_response_exact:
  "format_response X =
     Inr (PDict [(PStr ''status'', PStr ''success''),
                 (PStr ''data'', X),
                 (PStr ''timestamp'', PStr ''2024-01-01T00:00:00Z'')])
   \<and> (\<forall>Y. Y = X \<longrightarrow> format_response Y = format_response X)"
  by (simp add: format_response_Inr)

theorem format_response_exact_witness:
  "format_response (PList [PInt 7, PNone]) =
     Inr (PDict [(PStr ''status'', PStr ''success''),
                 (PStr ''data'', PList [PInt 7, PNone]),
                 (PStr ''timestamp'', PStr ''2024-01-01T00:00:00Z'')])
   \<and> PList [PInt 7, PNone] = PList [PInt 7, PNone]
   \<and> format_response (PList [PInt 7, PNone]) = format_response (PList [PInt 7, PNone])"
  using format_response_exact [of "PList [PInt 7, PNone]"] by simp

text \<open>
  Claim C2, as stated: \<open>format_response\<close> applied to its own result gives the same
  result. It does not: already for \<^verbatim>\<open>None\<close> the second call wraps the first envelope.
\<close>

theorem format_response_idempotent_counterexample:
  "and_then (format_response PNone) format_response \<noteq> format_response PNone"
  by (simp add: format_response_Inr and_then_Inr)

text \<open>
  Claim C2, amended. For every value \<open>X\<close>, \<open>format_response\<close> applied to
  \<open>format_response X\<close> returns the envelope whose \<^verbatim>\<open>'data'\<close> item is the whole envelope
  of \<open>X\<close>: the second call wraps the result of the first. The two results are equal
  exactly when the envelope of \<open>X\<close> is equal to \<open>X\<close> itself.
\<close>

theorem format_response_twice:
  "and_then (format_response X) format_response =
     Inr (PDict [(PStr ''status'', PStr ''success''),
                 (PStr ''data'',
                    PDict [(PStr ''status'', PStr ''success''),
                           (PStr ''data'', X),
                           (PStr ''timestamp'', PStr ''2024-01-01T00:00:00Z'')]),
                 (PStr ''timestamp'', PStr ''2024-01-01T00:00:00Z'')])
   \<and> (and_then (format_response X) format_response = format_response X) =
       (PDict [(PStr ''status'', PStr ''success''),
               (PStr ''data'', X),
               (PStr ''timestamp'', PStr ''2024-01-01T00:00:00Z'')] = X)"
  by (simp add: format_response_Inr and_then_Inr)

text \<open>
  Claim C3. For every configuration and every value \<open>X\<close>,
  \<open>DataProcessor(config).process(X)\<close> is \<open>format_response(X)\<close>; two processors built
  from any two configurations, of any types, give the same result.
\<close>

theorem process_is_format_response:
  "process (DataProcessor_init cfg) X = format_response X
   \<and> process (DataProcessor_init cfg) X = process (DataProcessor_init cfg') X"
  by (simp add: process_def)

text \<open>
  Claim C8. For every input, the envelope that \<open>format_response\<close> returns, and so the
  one that \<open>process\<close> returns, has the keys \<^verbatim>\<open>'status'\<close>, \<^verbatim>\<open>'data'\<close> and
  \<^verbatim>\<open>'timestamp'\<close>, each once, and no other key.
\<close>

theorem envelope_keys:
  "\<exists>d ks. format_response X = Inr d \<and> process self X = Inr d
     \<and> dict_keys d = Some ks
     \<and> ks = [PStr ''status'', PStr ''data'', PStr ''timestamp'']
     \<and> distinct ks \<and> length ks = 3"
  by (simp add: process_def format_response_Inr)

text \<open>
  Claim C9. \<open>format_response\<close> is total and pure: for every input value, hashable or
  not, it returns the envelope of that value and raises no exception, and its result
  depends only on its argument: the envelope is built from the argument and two
  literals, and equal arguments give equal results.
\<close>

theorem format_response_total:
  "format_response X =
     Inr (PDict [(PStr ''status'', PStr ''success''),
                 (PStr ''data'', X),
                 (PStr ''timestamp'', PStr ''2024-01-01T00:00:00Z'')])
   \<and> (\<forall>e. format_response X \<noteq> Inl e)
   \<and> (\<forall>Y. Y = X \<longrightarrow> format_response Y = format_response X)"
  by (simp add: format_response_Inr)

theorem format_response_total_witness:
  "format_response (PDict [(PStr ''ids'', PList [PInt 1, PInt 2])]) =
     Inr (PDict [(PStr ''status'', PStr ''success''),
                 (PStr ''data'', PDict [(PStr ''ids'', PList [PInt 1, PInt 2])]),
                 (PStr ''timestamp'', PStr ''2024-01-01T00:00:00Z'')])
   \<and> format_response (PDict [(PStr ''ids'', PList [PInt 1, PInt 2])]) \<noteq>
       Inl \<lparr>exc_type = TypeError, exc_str = ''unhashable type''\<rparr>
   \<and> PDict [(PStr ''ids'', PList [PInt 1, PInt 2])] = PDict [(PStr ''ids'', PList [PInt 1, PInt 2])]
   \<and> format_response (PDict [(PStr ''ids'', PList [PInt 1, PInt 2])]) =
       format_response (PDict [(PStr ''ids'', PList [PInt 1, PInt 2])])"
  using format_response_total [of "PDict [(PStr ''ids'', PList [PInt 1, PInt 2])]"] by simp

section \<open>Properties of the web application\<close>

text \<open>
  Claim C6. Whatever the request (path, query parameters, headers), the view \<open>hello\<close>
  returns status 200 and the body \<^verbatim>\<open>{"message": "Hello from Python!"}\<close>; so every GET
  request for the path \<^verbatim>\<open>/\<close> is answered with it, and no outbound call is made.
\<close>

theorem hello_fixed:
  "hello req =
     Inr (Rv \<lparr>status = 200, body = PDict [(PStr ''message'', PStr ''Hello from Python!'')]\<rparr>)
   \<and> hello req = hello req'
   \<and> (path req = ''/'' \<longrightarrow>
        dispatch_request req net =
          (Response \<lparr>status = 200,
                      body = PDict [(PStr ''message'', PStr ''Hello from Python!'')]\<rparr>, net))"
  by (simp add: hello_Inr dispatch_hello)

theorem hello_fixed_witness:
  "path \<lparr>path = ''/'', args = [(''lang'', ''fr'')], headers = [(''Accept'', ''text/html'')]\<rparr> = ''/''
   \<and> dispatch_request
        \<lparr>path = ''/'', args = [(''lang'', ''fr'')], headers = [(''Accept'', ''text/html'')]\<rparr>
        (mock_network (Inl \<lparr>exc_type = Timeout, exc_str = ''timed out''\<rparr>)) =
      (Response \<lparr>status = 200,
                  body = PDict [(PStr ''message'', PStr ''Hello from Python!'')]\<rparr>,
       mock_network (Inl \<lparr>exc_type = Timeout, exc_str = ''timed out''\<rparr>))"
  using hello_fixed
    [of "\<lparr>path = ''/'', args = [(''lang'', ''fr'')], headers = [(''Accept'', ''text/html'')]\<rparr>"
        _ "mock_network (Inl \<lparr>exc_type = Timeout, exc_str = ''timed out''\<rparr>)"]
  by simp



text \<open>
  Claim C4. If the outbound GET raises a request exception \<open>e\<close>, either in
  \<^verbatim>\<open>requests.get\<close> itself or in \<^verbatim>\<open>raise_for_status\<close> for a status that it turns into
  an exception, the view answers a GET request for \<^verbatim>\<open>/data\<close> with status 500 and the
  body \<^verbatim>\<open>{'error': str(e)}\<close>, and exactly one outbound call has been made: there is
  no retry.
\<close>

theorem get_data_request_exception:
  assumes "path req = ''/data''"
    and "reply net (length (sent net)) = Inl e
         \<or> (\<exists>r. reply net (length (sent net)) = Inr r \<and> raise_for_status r = Inl e)"
    and "isinstance_RequestException (exc_type e)"
  shows "get_data req net =
           (Inr (RvStatus \<lparr>status = 200, body = PDict [(PStr ''error'', PStr (exc_str e))]\<rparr> 500),
            net\<lparr>sent := sent net @ [''https://api.example.com/data'']\<rparr>)
       \<and> dispatch_request req net =
           (Response \<lparr>status = 500, body = PDict [(PStr ''error'', PStr (exc_str e))]\<rparr>,
            net\<lparr>sent := sent net @ [''https://api.example.com/data'']\<rparr>)"
proof -
  have view: "get_data req net =
      (Inr (RvStatus \<lparr>status = 200, body = PDict [(PStr ''error'', PStr (exc_str e))]\<rparr> 500),
       net\<lparr>sent := sent net @ [''https://api.example.com/data'']\<rparr>)"
    using assms(2)
  proof
    assume "reply net (length (sent net)) = Inl e"
    with assms(3) show ?thesis
      by (simp add: get_data_raised)
  next
    assume "\<exists>r. reply net (length (sent net)) = Inr r \<and> raise_for_status r = Inl e"
    then obtain r where "reply net (length (sent net)) = Inr r" and "raise_for_status r = Inl e"
      by blast
    with assms(3) show ?thesis
      by (simp add: get_data_returned and_then_Inl)
  qed
  with assms(1) show ?thesis
    by (simp add: dispatch_data)
qed

theorem get_data_request_exception_witness:
  "dispatch_request \<lparr>path = ''/data'', args = [], headers = []\<rparr>
     (mock_network (Inl \<lparr>exc_type = Timeout, exc_str = ''read timed out''\<rparr>)) =
   (Response \<lparr>status = 500, body = PDict [(PStr ''error'', PStr ''read timed out'')]\<rparr>,
    \<lparr>reply = (\<lambda>_. Inl \<lparr>exc_type = Timeout, exc_str = ''read timed out''\<rparr>),
      sent = [''https://api.example.com/data'']\<rparr>)
   \<and> dispatch_request \<lparr>path = ''/data'', args = [], headers = []\<rparr>
     (mock_network
        (Inr \<lparr>status_code = 503, http_error_msg = ''503 Server Error'',
               json = Inr PNone\<rparr>)) =
   (Response \<lparr>status = 500, body = PDict [(PStr ''error'', PStr ''503 Server Error'')]\<rparr>,
    \<lparr>reply = (\<lambda>_. Inr \<lparr>status_code = 503, http_error_msg = ''503 Server Error'',
                           json = Inr PNone\<rparr>),
      sent = [''https://api.example.com/data'']\<rparr>)"
  using get_data_request_exception
    [of "\<lparr>path = ''/data'', args = [], headers = []\<rparr>"
        "mock_network (Inl \<lparr>exc_type = Timeout, exc_str = ''read timed out''\<rparr>)"
        "\<lparr>exc_type = Timeout, exc_str = ''read timed out''\<rparr>"]
    get_data_request_exception
    [of "\<lparr>path = ''/data'', args = [], headers = []\<rparr>"
        "mock_network
           (Inr \<lparr>status_code = 503, http_error_msg = ''503 Server Error'',
                  json = Inr PNone\<rparr>)"
        "\<lparr>exc_type = HTTPError, exc_str = ''503 Server Error''\<rparr>"]
  by (simp add: mock_network_def raise_for_status_def)

text \<open>
  Claim C7, as stated: after a connection error the body has an \<^verbatim>\<open>'error'\<close> item whose
  value is a non-empty string. The value is \<^verbatim>\<open>str(e)\<close>, and a \<^verbatim>\<open>ConnectionError\<close>
  raised with no argument has the empty string for it.
\<close>

theorem get_data_connection_error_counterexample:
  "reply (mock_network (Inl \<lparr>exc_type = ConnectionError, exc_str = []\<rparr>)) 0 =
     Inl \<lparr>exc_type = ConnectionError, exc_str = []\<rparr>
   \<and> fst (dispatch_request \<lparr>path = ''/data'', args = [], headers = []\<rparr>
            (mock_network (Inl \<lparr>exc_type = ConnectionError, exc_str = []\<rparr>))) =
      Response \<lparr>status = 500, body = PDict [(PStr ''error'', PStr [])]\<rparr>"
  by (simp add: dispatch_data get_data_raised mock_network_def)

text \<open>
  Claim C7, amended. Whenever the upstream call fails with a connection error \<open>e\<close>, the
  response to a GET request for \<^verbatim>\<open>/data\<close> has status 500 and its body has an
  \<^verbatim>\<open>'error'\<close> item whose value is the string \<^verbatim>\<open>str(e)\<close>; that string is non-empty
  exactly when \<^verbatim>\<open>str(e)\<close> is.
\<close>

theorem get_data_connection_error:
  assumes "path req = ''/data''"
    and "reply net (length (sent net)) = Inl e"
    and "exc_type e = ConnectionError"
  shows "\<exists>resp s. fst (dispatch_request req net) = Response resp
           \<and> status resp = 500
           \<and> dict_get (body resp) (PStr ''error'') = Some (PStr s)
           \<and> s = exc_str e
           \<and> (s \<noteq> []) = (exc_str e \<noteq> [])"
  using assms by (simp add: dispatch_data get_data_raised key_eq_def)

theorem get_data_connection_error_witness:
  "\<exists>resp. fst (dispatch_request \<lparr>path = ''/data'', args = [], headers = []\<rparr>
        (mock_network (Inl \<lparr>exc_type = ConnectionError, exc_str = ''Connection refused''\<rparr>))) =
      Response resp
    \<and> status resp = 500
    \<and> dict_get (body resp) (PStr ''error'') = Some (PStr ''Connection refused'')"
  using get_data_connection_error
    [of "\<lparr>path = ''/data'', args = [], headers = []\<rparr>"
        "mock_network (Inl \<lparr>exc_type = ConnectionError, exc_str = ''Connection refused''\<rparr>)"
        "\<lparr>exc_type = ConnectionError, exc_str = ''Connection refused''\<rparr>"]
  by (simp add: mock_network_def)

text \<open>
  Claim C10, as stated: a 2xx response whose body is not parseable JSON always gives
  status 500 with an \<^verbatim>\<open>'error'\<close> body, never an unhandled exception. A body of very
  deeply nested arrays is not parseable, and the decoder fails on it with
  \<^verbatim>\<open>RecursionError\<close>, which is no request exception: the \<^verbatim>\<open>except\<close> clause lets it
  through and the view ends with an unhandled exception.
\<close>

theorem get_data_json_failure_counterexample:
  "status_code \<lparr>status_code = 200, http_error_msg = [],
                json = Inl \<lparr>exc_type = RecursionError,
                            exc_str = ''maximum recursion depth exceeded''\<rparr>\<rparr> = 200
   \<and> fst (dispatch_request \<lparr>path = ''/data'', args = [], headers = []\<rparr>
            (mock_network
               (Inr \<lparr>status_code = 200, http_error_msg = [],
                      json = Inl \<lparr>exc_type = RecursionError,
                                  exc_str = ''maximum recursion depth exceeded''\<rparr>\<rparr>))) =
      Unhandled \<lparr>exc_type = RecursionError, exc_str = ''maximum recursion depth exceeded''\<rparr>"
  by (simp add: dispatch_data get_data_returned mock_network_def raise_for_status_def
      and_then_Inr)

text \<open>
  Claim C10, amended. If the upstream call returns a 2xx status and
  \<^verbatim>\<open>response.json()\<close> fails to decode the body with an exception \<open>e\<close>, then: when \<open>e\<close> is
  a request exception (as the \<^verbatim>\<open>JSONDecodeError\<close> of \<^verbatim>\<open>requests.exceptions\<close> is), the
  same \<^verbatim>\<open>except\<close> clause as for network failures takes it and the response has status
  500 and the body \<^verbatim>\<open>{'error': str(e)}\<close>; when \<open>e\<close> is of any other class, it is not
  caught and leaves the view as an unhandled exception. In both cases exactly one
  outbound call has been made and there is no 200 response.
\<close>

theorem get_data_json_failure:
  assumes "path req = ''/data''"
    and "reply net (length (sent net)) = Inr r"
    and "200 \<le> status_code r" and "status_code r < 300"
    and "json r = Inl e"
  shows "dispatch_request req net =
           (if isinstance_RequestException (exc_type e)
            then Response \<lparr>status = 500, body = PDict [(PStr ''error'', PStr (exc_str e))]\<rparr>
            else Unhandled e,
            net\<lparr>sent := sent net @ [''https://api.example.com/data'']\<rparr>)"
proof -
  from assms(4) have "raise_for_status r = Inr ()"
    by (simp add: raise_for_status_ok)
  with assms(2,5) have "get_data req net =
      (if isinstance_RequestException (exc_type e)
       then Inr (RvStatus \<lparr>status = 200, body = PDict [(PStr ''error'', PStr (exc_str e))]\<rparr> 500)
       else Inl e,
       net\<lparr>sent := sent net @ [''https://api.example.com/data'']\<rparr>)"
    by (simp add: get_data_returned and_then_Inr)
  with assms(1) show ?thesis
    by (simp add: dispatch_data)
qed

theorem get_data_json_failure_witness:
  "dispatch_request \<lparr>path = ''/data'', args = [], headers = []\<rparr>
     (mock_network
        (Inr \<lparr>status_code = 200, http_error_msg = [],
               json = Inl \<lparr>exc_type = RequestsJSONDecodeError, exc_str = ''Expecting value''\<rparr>\<rparr>)) =
   (Response \<lparr>status = 500, body = PDict [(PStr ''error'', PStr ''Expecting value'')]\<rparr>,
    \<lparr>reply = (\<lambda>_. Inr \<lparr>status_code = 200, http_error_msg = [],
               json = Inl \<lparr>exc_type = RequestsJSONDecodeError, exc_str = ''Expecting value''\<rparr>\<rparr>),
      sent = [''https://api.example.com/data'']\<rparr>)
   \<and> dispatch_request \<lparr>path = ''/data'', args = [], headers = []\<rparr>
     (mock_network
        (Inr \<lparr>status_code = 204, http_error_msg = [],
               json = Inl \<lparr>exc_type = ValueError, exc_str = ''No JSON object could be decoded''\<rparr>\<rparr>)) =
   (Unhandled \<lparr>exc_type = ValueError, exc_str = ''No JSON object could be decoded''\<rparr>,
    \<lparr>reply = (\<lambda>_. Inr \<lparr>status_code = 204, http_error_msg = [],
               json = Inl \<lparr>exc_type = ValueError, exc_str = ''No JSON object could be decoded''\<rparr>\<rparr>),
      sent = [''https://api.example.com/data'']\<rparr>)"
  using get_data_json_failure
    [of "\<lparr>path = ''/data'', args = [], headers = []\<rparr>"
        "mock_network
           (Inr \<lparr>status_code = 200, http_error_msg = [],
                  json = Inl \<lparr>exc_type = RequestsJSONDecodeError, exc_str = ''Expecting value''\<rparr>\<rparr>)"
        "\<lparr>status_code = 200, http_error_msg = [],
           json = Inl \<lparr>exc_type = RequestsJSONDecodeError, exc_str = ''Expecting value''\<rparr>\<rparr>"
        "\<lparr>exc_type = RequestsJSONDecodeError, exc_str = ''Expecting value''\<rparr>"]
    get_data_json_failure
    [of "\<lparr>path = ''/data'', args = [], headers = []\<rparr>"
        "mock_network
           (Inr \<lparr>status_code = 204, http_error_msg = [],
                  json = Inl \<lparr>exc_type = ValueError, exc_str = ''No JSON object could be decoded''\<rparr>\<rparr>)"
        "\<lparr>status_code = 204, http_error_msg = [],
           json = Inl \<lparr>exc_type = ValueError, exc_str = ''No JSON object could be decoded''\<rparr>\<rparr>"
        "\<lparr>exc_type = ValueError, exc_str = ''No JSON object could be decoded''\<rparr>"]
  by (simp add: mock_network_def)

end
